theory Spec2Isabelle
  imports Main
begin

section \<open>Values, errors and the HTTP boundary\<close>

text \<open>
  The development embeds \<^verbatim>\<open>src/rpclient/blockstream-esplora.ts\<close> (the class
  \<^verbatim>\<open>BlockstreamEsploraClient\<close>) and the class \<^verbatim>\<open>Provider\<close> that follows it in the
  same source file.

  JavaScript values of type \<^verbatim>\<open>any\<close> are the JSON-shaped values below. Numbers inside such
  values are integers: the calls of \<^verbatim>\<open>multiCall\<close> only move them around.
\<close>

datatype jsval =
    JUndefined
  | JNull
  | JBool bool
  | JNum int
  | JStr string
  | JArr "jsval list"
  | JObj "(string \<times> jsval) list"

text \<open>
  A thrown value. \<open>Error m\<close> is \<^verbatim>\<open>new Error(m)\<close>; \<open>TypeError\<close> is the engine's own
  failure on reading a property of \<^verbatim>\<open>undefined\<close> or calling something that is no function
  (its message is engine-defined and not modelled).
\<close>

datatype error = Error string | TypeError

text \<open>A logical call \<^verbatim>\<open>[method, params]\<close> and the envelope \<^verbatim>\<open>{ result }\<close>.\<close>

type_synonym call = "string \<times> jsval list"

record envelope =
  result :: jsval

text \<open>
  \<^verbatim>\<open>fetch\<close> of \<^verbatim>\<open>node-fetch\<close> is the boundary of the class: a request, the state of the
  outside world \<open>'w\<close>, and either a thrown error or a response, with the world after the call.
  \<^verbatim>\<open>response.text()\<close> and \<^verbatim>\<open>response.json()\<close> may reject, so they are sums.
\<close>

record request =
  req_url :: string
  req_method :: string
  req_headers :: "(string \<times> string) list"
  req_body :: "string option"

record response =
  resp_ok :: bool
  resp_statusText :: string
  resp_text :: "error + string"
  resp_json :: "error + jsval"

type_synonym 'w fetch = "request \<Rightarrow> 'w \<Rightarrow> (error + response) \<times> 'w"

definition GET :: "string \<Rightarrow> request" where
  "GET u = \<lparr>req_url = u, req_method = ''GET'', req_headers = [], req_body = None\<rparr>"

subsection \<open>String conversion of template literals\<close>

definition digit_char :: "nat \<Rightarrow> char" where
  "digit_char d = char_of (48 + d)"

function show_nat :: "nat \<Rightarrow> string" where
  "show_nat n = (if n < 10 then [digit_char n] else show_nat (n div 10) @ [digit_char (n mod 10)])"
  by pat_completeness auto
termination
  by (relation "measure id") auto

declare show_nat.simps [simp del]

definition show_int :: "int \<Rightarrow> string" where
  "show_int i = (if i < 0 then CHR ''-'' # show_nat (nat (- i)) else show_nat (nat i))"

fun join :: "string \<Rightarrow> string list \<Rightarrow> string" where
  "join sep [] = []"
| "join sep [x] = x"
| "join sep (x # y # ys) = x @ sep @ join sep (y # ys)"

text \<open>
  \<^verbatim>\<open>`${v}`\<close>: the string conversion of JavaScript on the values above (an array joins its
  elements with a comma, \<^verbatim>\<open>null\<close> and \<^verbatim>\<open>undefined\<close> elements printing as nothing; an
  integer prints in decimal, as JavaScript does below \<open>10\<^sup>2\<^sup>1\<close>).
\<close>

fun js_toString :: "jsval \<Rightarrow> string" where
  "js_toString JUndefined = ''undefined''"
| "js_toString JNull = ''null''"
| "js_toString (JBool b) = (if b then ''true'' else ''false'')"
| "js_toString (JNum i) = show_int i"
| "js_toString (JStr s) = s"
| "js_toString (JArr xs) =
     join '','' (map (\<lambda>x. if x = JUndefined \<or> x = JNull then [] else js_toString x) xs)"
| "js_toString (JObj kvs) = ''[object Object]''"

text \<open>\<^verbatim>\<open>const [x] = params\<close>: the first element, \<^verbatim>\<open>undefined\<close> for an empty array.\<close>

fun first :: "jsval list \<Rightarrow> jsval" where
  "first [] = JUndefined"
| "first (x # xs) = x"

section \<open>BlockstreamEsploraClient\<close>

datatype networkType = Mainnet | Testnet | Signet | Regtest

definition networkType_name :: "networkType \<Rightarrow> string" where
  "networkType_name t =
     (case t of Mainnet \<Rightarrow> ''mainnet'' | Testnet \<Rightarrow> ''testnet''
      | Signet \<Rightarrow> ''signet'' | Regtest \<Rightarrow> ''regtest'')"

record BlockstreamEsploraClient =
  baseUrl :: string

text \<open>
  The constructor. Its parameter is cast from the four network types of \<^verbatim>\<open>Provider\<close>, so
  the last branch is reachable with \<^verbatim>\<open>regtest\<close>.
\<close>

definition BlockstreamEsploraClient_new :: "networkType \<Rightarrow> error + BlockstreamEsploraClient" where
  "BlockstreamEsploraClient_new t =
     (if t = Mainnet then Inr \<lparr>baseUrl = ''https://blockstream.info/api''\<rparr>
      else if t = Testnet then Inr \<lparr>baseUrl = ''https://blockstream.info/testnet/api''\<rparr>
      else if t = Signet then Inr \<lparr>baseUrl = ''https://mempool.space/signet/api''\<rparr>
      else Inl (Error (''Unsupported network type: '' @ networkType_name t)))"

text \<open>
  The GET methods share one shape: fetch, throw on a response that is not ok, else the
  parsed JSON body.
\<close>

definition get_json :: "'w fetch \<Rightarrow> string \<Rightarrow> string \<Rightarrow> 'w \<Rightarrow> (error + jsval) \<times> 'w" where
  "get_json fetch u failure w =
     (case fetch (GET u) w of
        (Inl e, w') \<Rightarrow> (Inl e, w')
      | (Inr r, w') \<Rightarrow>
          if \<not> resp_ok r then (Inl (Error (failure @ resp_statusText r)), w')
          else (resp_json r, w'))"

definition getAddressUtxos ::
  "'w fetch \<Rightarrow> BlockstreamEsploraClient \<Rightarrow> jsval \<Rightarrow> 'w \<Rightarrow> (error + jsval) \<times> 'w" where
  "getAddressUtxos fetch this address =
     get_json fetch (baseUrl this @ ''/address/'' @ js_toString address @ ''/utxo'')
       ''Failed to fetch UTXOs: ''"

definition getTxInfo ::
  "'w fetch \<Rightarrow> BlockstreamEsploraClient \<Rightarrow> jsval \<Rightarrow> 'w \<Rightarrow> (error + jsval) \<times> 'w" where
  "getTxInfo fetch this txid =
     get_json fetch (baseUrl this @ ''/tx/'' @ js_toString txid) ''Failed to fetch transaction: ''"

definition getBlockHeight ::
  "'w fetch \<Rightarrow> BlockstreamEsploraClient \<Rightarrow> 'w \<Rightarrow> (error + jsval) \<times> 'w" where
  "getBlockHeight fetch this =
     get_json fetch (baseUrl this @ ''/blocks/tip/height'') ''Failed to fetch block height: ''"

definition getFeeEstimates ::
  "'w fetch \<Rightarrow> BlockstreamEsploraClient \<Rightarrow> 'w \<Rightarrow> (error + jsval) \<times> 'w" where
  "getFeeEstimates fetch this =
     get_json fetch (baseUrl this @ ''/fee-estimates'') ''Failed to fetch fee estimates: ''"

definition pushTx ::
  "'w fetch \<Rightarrow> BlockstreamEsploraClient \<Rightarrow> string \<Rightarrow> 'w \<Rightarrow> (error + string) \<times> 'w" where
  "pushTx fetch this txHex w =
     (case fetch \<lparr>req_url = baseUrl this @ ''/tx'', req_method = ''POST'',
                   req_headers = [(''Content-Type'', ''text/plain'')],
                   req_body = Some txHex\<rparr> w of
        (Inl e, w') \<Rightarrow> (Inl e, w')
      | (Inr r, w') \<Rightarrow>
          if \<not> resp_ok r then
            (case resp_text r of
               Inl e \<Rightarrow> (Inl e, w')
             | Inr errorText \<Rightarrow> (Inl (Error (''Failed to broadcast transaction: '' @ errorText)), w'))
          else (resp_text r, w'))"

subsection \<open>multiCall\<close>

definition ord_output_stub :: jsval where
  "ord_output_stub =
     JObj [(''indexed'', JBool True), (''inscriptions'', JArr []), (''runes'', JObj [])]"

definition known_methods :: "string list" where
  "known_methods =
     [''esplora_address::utxo'', ''btc_getblockcount'', ''ord_output'', ''esplora_tx'',
      ''alkanes_protorunesbyoutpoint'']"

text \<open>
  The body of the \<^verbatim>\<open>try\<close> block up to \<^verbatim>\<open>results.push\<close>: the \<^verbatim>\<open>switch\<close> on the method
  name. In the \<^verbatim>\<open>ord_output\<close> case \<^verbatim>\<open>txidVout.split(':')\<close> throws unless the first
  parameter is a string; its result is not used.
\<close>

definition dispatch ::
  "'w fetch \<Rightarrow> BlockstreamEsploraClient \<Rightarrow> call \<Rightarrow> 'w \<Rightarrow> (error + jsval) \<times> 'w" where
  "dispatch fetch this c w =
     (case c of (method, params) \<Rightarrow>
        if method = ''esplora_address::utxo'' then getAddressUtxos fetch this (first params) w
        else if method = ''btc_getblockcount'' then getBlockHeight fetch this w
        else if method = ''ord_output'' then
          (case first params of
             JStr txidVout \<Rightarrow> (Inr ord_output_stub, w)
           | _ \<Rightarrow> (Inl TypeError, w))
        else if method = ''esplora_tx'' then getTxInfo fetch this (first params) w
        else if method = ''alkanes_protorunesbyoutpoint'' then (Inr (JArr []), w)
        else (Inr JNull, w))"

text \<open>
  The \<^verbatim>\<open>for\<close> loop with its accumulator \<^verbatim>\<open>results\<close>: one \<^verbatim>\<open>try\<close>/\<^verbatim>\<open>catch\<close> per call, the
  \<^verbatim>\<open>catch\<close> pushing \<^verbatim>\<open>{ result: null }\<close>. Console output is not modelled.
\<close>

fun multiCall_loop ::
  "'w fetch \<Rightarrow> BlockstreamEsploraClient \<Rightarrow> call list \<Rightarrow> envelope list \<Rightarrow> 'w
     \<Rightarrow> envelope list \<times> 'w" where
  "multiCall_loop fetch this [] results w = (results, w)"
| "multiCall_loop fetch this (c # cs) results w =
     (case dispatch fetch this c w of
        (Inr r, w') \<Rightarrow> multiCall_loop fetch this cs (results @ [\<lparr>result = r\<rparr>]) w'
      | (Inl e, w') \<Rightarrow> multiCall_loop fetch this cs (results @ [\<lparr>result = JNull\<rparr>]) w')"

definition BlockstreamEsploraClient_multiCall ::
  "'w fetch \<Rightarrow> BlockstreamEsploraClient \<Rightarrow> call list \<Rightarrow> 'w \<Rightarrow> envelope list \<times> 'w" where
  "BlockstreamEsploraClient_multiCall fetch this calls w = multiCall_loop fetch this calls [] w"

section \<open>Provider\<close>

subsection \<open>Collaborators outside the source file\<close>

text \<open>
  \<^verbatim>\<open>Provider\<close> talks to classes and libraries whose code is not part of the source file:
  \<^verbatim>\<open>SandshrewBitcoinClient\<close>, \<^verbatim>\<open>bitcoin.Psbt\<close>, \<^verbatim>\<open>waitForTransaction\<close> and the
  arithmetic of JavaScript numbers (IEEE doubles, with \<^verbatim>\<open>toFixed\<close>). They are parameters
  of the model: a general theorem below holds for every choice of them. A collaborator
  either returns or rejects; one that never answers (a wait without end) is not a value of
  the model.

  Each call to a collaborator is recorded in a trace, in the order of the calls. Console
  output is not modelled.
\<close>

datatype event =
    BlockstreamMultiCall "call list"
  | SandshrewMultiCall "call list"
  | PsbtFromHex string
  | PsbtFromBase64 string
  | ExtractTransaction
  | BlockstreamPushTx string
  | TestMemPoolAccept "string list"
  | SendRawTransaction string
  | WaitForTransaction string
  | GetMemPoolEntry string

datatype backend = Primary | SecondaryExplorer

text \<open>The backend an event contacts: none for the local PSBT library.\<close>

fun backend_of :: "event \<Rightarrow> backend option" where
  "backend_of (BlockstreamMultiCall cs) = Some SecondaryExplorer"
| "backend_of (BlockstreamPushTx h) = Some SecondaryExplorer"
| "backend_of (SandshrewMultiCall cs) = Some Primary"
| "backend_of (TestMemPoolAccept hs) = Some Primary"
| "backend_of (SendRawTransaction h) = Some Primary"
| "backend_of (WaitForTransaction t) = Some Primary"
| "backend_of (GetMemPoolEntry t) = Some Primary"
| "backend_of (PsbtFromHex h) = None"
| "backend_of (PsbtFromBase64 b) = None"
| "backend_of ExtractTransaction = None"

definition backends :: "event list \<Rightarrow> backend list" where
  "backends tr = List.map_filter backend_of tr"

record 'w state =
  trace :: "event list"
  world :: 'w

record mempool_accept =
  allowed :: bool
  reject_reason :: "string option"

record 'n mempool_entry =
  me_vsize :: 'n
  me_weight :: 'n
  me_fees_base :: 'n

text \<open>\<^verbatim>\<open>this.sandshrew\<close>, with \<^verbatim>\<open>bitcoindRpc\<close> flattened into it.\<close>

record ('w, 'n) SandshrewBitcoinClient =
  ss_multiCall :: "call list \<Rightarrow> 'w \<Rightarrow> (error + envelope list) \<times> 'w"
  testMemPoolAccept :: "string list \<Rightarrow> 'w \<Rightarrow> (error + mempool_accept list) \<times> 'w"
  sendRawTransaction :: "string \<Rightarrow> 'w \<Rightarrow> (error + unit) \<times> 'w"
  getMemPoolEntry :: "string \<Rightarrow> 'w \<Rightarrow> (error + 'n mempool_entry) \<times> 'w"

text \<open>What \<^verbatim>\<open>pushPsbt\<close> reads of \<^verbatim>\<open>extractedTx\<close>.\<close>

record 'n Transaction =
  tx_getId :: string
  tx_toHex :: string
  tx_virtualSize :: 'n
  tx_weight :: 'n

record ('w, 'n, 'p, 'k) externals =
  ext_fetch :: "'w fetch"
  new_SandshrewBitcoinClient :: "string \<Rightarrow> ('w, 'n) SandshrewBitcoinClient"
  Psbt_fromHex :: "string \<Rightarrow> 'k \<Rightarrow> error + 'p"
  Psbt_fromBase64 :: "string \<Rightarrow> 'k \<Rightarrow> error + 'p"
  extractTransaction :: "'p \<Rightarrow> error + 'n Transaction"
  waitForTransaction :: "string \<Rightarrow> ('w, 'n) SandshrewBitcoinClient \<Rightarrow> 'w \<Rightarrow> (error + unit) \<times> 'w"
  num :: "int \<Rightarrow> 'n"
  num_times :: "'n \<Rightarrow> 'n \<Rightarrow> 'n"
  num_divide :: "'n \<Rightarrow> 'n \<Rightarrow> 'n"
  num_power :: "'n \<Rightarrow> 'n \<Rightarrow> 'n"
  num_toFixed :: "'n \<Rightarrow> nat \<Rightarrow> string"

subsection \<open>Sequencing\<close>

text \<open>\<^verbatim>\<open>const x = await m; rest\<close>: a rejection of \<open>m\<close> leaves the function.\<close>

definition await :: "('s \<Rightarrow> (error + 'a) \<times> 's) \<Rightarrow> ('a \<Rightarrow> 's \<Rightarrow> (error + 'b) \<times> 's)
    \<Rightarrow> 's \<Rightarrow> (error + 'b) \<times> 's" where
  "await m f s = (case m s of (Inl e, s') \<Rightarrow> (Inl e, s') | (Inr a, s') \<Rightarrow> f a s')"

text \<open>A call that reaches the outside world, and a call of the local PSBT library.\<close>

definition remote :: "event \<Rightarrow> ('w \<Rightarrow> 'a \<times> 'w) \<Rightarrow> 'w state \<Rightarrow> 'a \<times> 'w state" where
  "remote ev f s = (case f (world s) of (r, w') \<Rightarrow> (r, \<lparr>trace = trace s @ [ev], world = w'\<rparr>))"

definition local :: "event \<Rightarrow> 'a \<Rightarrow> 'w state \<Rightarrow> 'a \<times> 'w state" where
  "local ev r s = (r, \<lparr>trace = trace s @ [ev], world = world s\<rparr>)"

subsection \<open>The constructor\<close>

record 'k ProviderConstructorArgs =
  arg_url :: string
  arg_projectId :: string
  arg_network :: 'k
  arg_networkType :: networkType
  arg_version :: "string option"
  arg_fallbackToBlockstream :: "bool option"

text \<open>
  The fields of \<^verbatim>\<open>Provider\<close> that \<^verbatim>\<open>multiCall\<close> and \<^verbatim>\<open>pushPsbt\<close> read. (\<^verbatim>\<open>alkanes\<close>,
  \<^verbatim>\<open>esplora\<close>, \<^verbatim>\<open>ord\<close> and \<^verbatim>\<open>api\<close> are built from the same URL and never read there.)
\<close>

record ('w, 'n, 'k) Provider =
  sandshrew :: "('w, 'n) SandshrewBitcoinClient option"
  blockstreamEsplora :: "BlockstreamEsploraClient option"
  network :: 'k
  networkType :: networkType
  url :: string
  useBlockstreamFallback :: bool

text \<open>\<^verbatim>\<open>[url, version, projectId].filter(Boolean).join('/')\<close>\<close>

definition masterUrl :: "string \<Rightarrow> string \<Rightarrow> string \<Rightarrow> string" where
  "masterUrl u version projectId = join ''/'' (filter (\<lambda>s. s \<noteq> []) [u, version, projectId])"

text \<open>
  The constructor. The \<^verbatim>\<open>switch\<close> on \<^verbatim>\<open>network\<close> only sets two locals that are never
  read. The \<^verbatim>\<open>try\<close>/\<^verbatim>\<open>catch\<close> round \<^verbatim>\<open>new BlockstreamEsploraClient\<close> leaves the field
  undefined when the constructor throws.
\<close>

definition Provider_new ::
  "('w, 'n, 'p, 'k) externals \<Rightarrow> 'k ProviderConstructorArgs \<Rightarrow> ('w, 'n, 'k) Provider" where
  "Provider_new ext args =
     (let version = (case arg_version args of None \<Rightarrow> ''v1'' | Some v \<Rightarrow> v);
          fallbackToBlockstream = (case arg_fallbackToBlockstream args of None \<Rightarrow> False | Some b \<Rightarrow> b);
          master = masterUrl (arg_url args) version (arg_projectId args);
          useFallback = (fallbackToBlockstream \<or> arg_networkType args = Signet)
      in \<lparr>sandshrew = Some (new_SandshrewBitcoinClient ext master),
          blockstreamEsplora =
            (if useFallback \<or> arg_networkType args \<in> set [Signet, Testnet, Mainnet] then
               (case BlockstreamEsploraClient_new (arg_networkType args) of
                  Inr client \<Rightarrow> Some client
                | Inl e \<Rightarrow> None)
             else None),
          network = arg_network args,
          networkType = arg_networkType args,
          url = master,
          useBlockstreamFallback = useFallback\<rparr>)"

subsection \<open>multiCall\<close>

text \<open>\<^verbatim>\<open>await this.blockstreamEsplora.multiCall(calls)\<close>\<close>

definition blockstream_multiCall ::
  "('w, 'n, 'p, 'k) externals \<Rightarrow> BlockstreamEsploraClient \<Rightarrow> call list \<Rightarrow> 'w state
     \<Rightarrow> (error + envelope list) \<times> 'w state" where
  "blockstream_multiCall ext client calls =
     remote (BlockstreamMultiCall calls)
       (\<lambda>w. case BlockstreamEsploraClient_multiCall (ext_fetch ext) client calls w of
               (rs, w') \<Rightarrow> (Inr rs, w'))"

text \<open>
  \<^verbatim>\<open>await this.sandshrew.multiCall(calls)\<close>; reading \<^verbatim>\<open>multiCall\<close> of an undefined
  \<^verbatim>\<open>sandshrew\<close> throws inside the \<^verbatim>\<open>try\<close>.
\<close>

definition sandshrew_multiCall ::
  "('w, 'n, 'k) Provider \<Rightarrow> call list \<Rightarrow> 'w state \<Rightarrow> (error + envelope list) \<times> 'w state" where
  "sandshrew_multiCall p calls s =
     (case sandshrew p of
        None \<Rightarrow> (Inl TypeError, s)
      | Some client \<Rightarrow> remote (SandshrewMultiCall calls) (ss_multiCall client calls) s)"

text \<open>
  The first \<^verbatim>\<open>if\<close> of \<^verbatim>\<open>Provider.multiCall\<close>: \<open>Some rs\<close> is its \<^verbatim>\<open>return\<close>, \<open>None\<close> is falling
  through to the rest of the method (the condition false, or the \<^verbatim>\<open>catch\<close>).
\<close>

definition blockstream_first ::
  "('w, 'n, 'p, 'k) externals \<Rightarrow> ('w, 'n, 'k) Provider \<Rightarrow> call list \<Rightarrow> 'w state
     \<Rightarrow> envelope list option \<times> 'w state" where
  "blockstream_first ext p calls s =
     (if useBlockstreamFallback p then
        (case blockstreamEsplora p of
           Some client \<Rightarrow>
             (case blockstream_multiCall ext client calls s of
                (Inr rs, s1) \<Rightarrow> (Some rs, s1)
              | (Inl e, s1) \<Rightarrow> (None, s1))
         | None \<Rightarrow> (None, s))
      else (None, s))"

definition Provider_multiCall ::
  "('w, 'n, 'p, 'k) externals \<Rightarrow> ('w, 'n, 'k) Provider \<Rightarrow> call list \<Rightarrow> 'w state
     \<Rightarrow> (error + envelope list) \<times> 'w state" where
  "Provider_multiCall ext p calls s =
     (case blockstream_first ext p calls s of
        (Some rs, s1) \<Rightarrow> (Inr rs, s1)
      | (None, s1) \<Rightarrow>
          (case sandshrew_multiCall p calls s1 of
             (Inr rs, s2) \<Rightarrow> (Inr rs, s2)
           | (Inl e, s2) \<Rightarrow>
               (case blockstreamEsplora p of
                  Some client \<Rightarrow>
                    if \<not> useBlockstreamFallback p then blockstream_multiCall ext client calls s2
                    else (Inl e, s2)
                | None \<Rightarrow> (Inl e, s2))))"

subsection \<open>pushPsbt\<close>

record 'n receipt =
  txId :: string
  rawTx :: string
  size' :: 'n
  weight :: 'n
  fee :: 'n
  satsPerVByte :: string

text \<open>The truth value of an optional string: \<^verbatim>\<open>undefined\<close> and \<^verbatim>\<open>''\<close> are false.\<close>

definition truthy :: "string option \<Rightarrow> bool" where
  "truthy x = (case x of None \<Rightarrow> False | Some v \<Rightarrow> v \<noteq> [])"

definition msg_supply :: string where
  "msg_supply = ''Please supply psbt in either base64 or hex format''"

definition msg_select :: string where
  "msg_select = ''Please select one format of psbt to broadcast''"

definition msg_extract :: string where
  "msg_extract = ''Transaction could not be extracted do to invalid Psbt.''"

definition msg_no_service :: string where
  "msg_no_service = ''No available service to broadcast transaction''"

text \<open>
  The two \<^verbatim>\<open>if\<close> statements that decode the payload, in their order: the variable
  \<^verbatim>\<open>psbt\<close> starts undefined.
\<close>

definition decode_psbt ::
  "('w, 'n, 'p, 'k) externals \<Rightarrow> ('w, 'n, 'k) Provider \<Rightarrow> string option \<Rightarrow> string option
     \<Rightarrow> 'w state \<Rightarrow> (error + 'p option) \<times> 'w state" where
  "decode_psbt ext p psbtHex psbtBase64 =
     await
       (case psbtHex of
          Some h \<Rightarrow>
            if h \<noteq> [] then local (PsbtFromHex h) (map_sum id Some (Psbt_fromHex ext h (network p)))
            else Pair (Inr None)
        | None \<Rightarrow> Pair (Inr None))
       (\<lambda>psbt.
          case psbtBase64 of
            Some b \<Rightarrow>
              if b \<noteq> [] then local (PsbtFromBase64 b) (map_sum id Some (Psbt_fromBase64 ext b (network p)))
              else Pair (Inr psbt)
          | None \<Rightarrow> Pair (Inr psbt))"

text \<open>
  \<^verbatim>\<open>psbt.extractTransaction()\<close> in its \<^verbatim>\<open>try\<close>: whatever is thrown there (also the
  \<^verbatim>\<open>TypeError\<close> of an undefined \<^verbatim>\<open>psbt\<close>) is replaced by one error.
\<close>

definition extract_tx ::
  "('w, 'n, 'p, 'k) externals \<Rightarrow> 'p option \<Rightarrow> 'w state \<Rightarrow> (error + 'n Transaction) \<times> 'w state" where
  "extract_tx ext psbt =
     (case psbt of
        None \<Rightarrow> Pair (Inl (Error msg_extract))
      | Some ps \<Rightarrow>
          local ExtractTransaction
            (case extractTransaction ext ps of
               Inl e \<Rightarrow> Inl (Error msg_extract)
             | Inr tx \<Rightarrow> Inr tx))"

text \<open>The branch \<^verbatim>\<open>if (this.useBlockstreamFallback || !this.sandshrew)\<close>.\<close>

definition push_blockstream ::
  "('w, 'n, 'p, 'k) externals \<Rightarrow> ('w, 'n, 'k) Provider \<Rightarrow> 'n Transaction \<Rightarrow> 'w state
     \<Rightarrow> (error + 'n receipt) \<times> 'w state" where
  "push_blockstream ext p extractedTx =
     (case blockstreamEsplora p of
        Some client \<Rightarrow>
          await (remote (BlockstreamPushTx (tx_toHex extractedTx))
                   (pushTx (ext_fetch ext) client (tx_toHex extractedTx)))
            (\<lambda>pushed. Pair (Inr
               \<lparr>txId = tx_getId extractedTx,
                rawTx = tx_toHex extractedTx,
                size' = tx_virtualSize extractedTx,
                weight = tx_weight extractedTx,
                fee = num ext 0,
                satsPerVByte = ''0''\<rparr>))
      | None \<Rightarrow> Pair (Inl (Error msg_no_service)))"

text \<open>
  The rest of the method, through \<^verbatim>\<open>this.sandshrew.bitcoindRpc\<close>.
  \<^verbatim>\<open>const [result] = ...\<close> of an empty array is undefined, and reading \<^verbatim>\<open>allowed\<close> of it
  throws; \<^verbatim>\<open>new Error(undefined)\<close> has the empty message.
\<close>

definition push_sandshrew ::
  "('w, 'n, 'p, 'k) externals \<Rightarrow> ('w, 'n, 'k) Provider \<Rightarrow> 'n Transaction \<Rightarrow> 'w state
     \<Rightarrow> (error + 'n receipt) \<times> 'w state" where
  "push_sandshrew ext p extractedTx =
     (case sandshrew p of
        None \<Rightarrow> Pair (Inl TypeError)
      | Some client \<Rightarrow>
          await (remote (TestMemPoolAccept [tx_toHex extractedTx])
                   (testMemPoolAccept client [tx_toHex extractedTx]))
          (\<lambda>accepted.
             case accepted of
               [] \<Rightarrow> Pair (Inl TypeError)
             | res # rest \<Rightarrow>
                 if \<not> allowed res then
                   Pair (Inl (Error (case reject_reason res of None \<Rightarrow> [] | Some m \<Rightarrow> m)))
                 else
                   await (remote (SendRawTransaction (tx_toHex extractedTx))
                            (sendRawTransaction client (tx_toHex extractedTx)))
                   (\<lambda>sent.
                      await (remote (WaitForTransaction (tx_getId extractedTx))
                               (waitForTransaction ext (tx_getId extractedTx) client))
                      (\<lambda>seen.
                         await (remote (GetMemPoolEntry (tx_getId extractedTx))
                                  (getMemPoolEntry client (tx_getId extractedTx)))
                         (\<lambda>txInMemPool.
                            let fee = num_times ext (me_fees_base txInMemPool)
                                        (num_power ext (num ext 10) (num ext 8))
                            in Pair (Inr
                                 \<lparr>txId = tx_getId extractedTx,
                                  rawTx = tx_toHex extractedTx,
                                  size' = me_vsize txInMemPool,
                                  weight = me_weight txInMemPool,
                                  fee = fee,
                                  satsPerVByte =
                                    num_toFixed ext
                                      (num_divide ext fee
                                         (num_divide ext (me_weight txInMemPool) (num ext 4)))
                                      2\<rparr>))))))"

definition pushPsbt ::
  "('w, 'n, 'p, 'k) externals \<Rightarrow> ('w, 'n, 'k) Provider \<Rightarrow> string option \<Rightarrow> string option
     \<Rightarrow> 'w state \<Rightarrow> (error + 'n receipt) \<times> 'w state" where
  "pushPsbt ext p psbtHex psbtBase64 =
     (if \<not> truthy psbtHex \<and> \<not> truthy psbtBase64 then Pair (Inl (Error msg_supply))
      else if truthy psbtHex \<and> truthy psbtBase64 then Pair (Inl (Error msg_select))
      else
        await (decode_psbt ext p psbtHex psbtBase64)
        (\<lambda>psbt.
           await (extract_tx ext psbt)
           (\<lambda>extractedTx.
              if useBlockstreamFallback p \<or> sandshrew p = None then push_blockstream ext p extractedTx
              else push_sandshrew ext p extractedTx)))"

section \<open>Auxiliary notions\<close>

text \<open>One turn of the loop of \<^verbatim>\<open>BlockstreamEsploraClient.multiCall\<close>: the envelope pushed.\<close>

definition step_envelope ::
  "'w fetch \<Rightarrow> BlockstreamEsploraClient \<Rightarrow> call \<Rightarrow> 'w \<Rightarrow> envelope \<times> 'w" where
  "step_envelope fetch this c w =
     (case dispatch fetch this c w of
        (Inr r, w') \<Rightarrow> (\<lparr>result = r\<rparr>, w')
      | (Inl e, w') \<Rightarrow> (\<lparr>result = JNull\<rparr>, w'))"

text \<open>
  \<open>grows s s'\<close>: the trace of \<open>s'\<close> extends that of \<open>s\<close>. \<open>quiet s s'\<close>: it extends it by
  events that contact no backend, and the world is the same.
\<close>

definition grows :: "'w state \<Rightarrow> 'w state \<Rightarrow> bool" where
  "grows s s' = (\<exists>evs. trace s' = trace s @ evs)"

definition quiet :: "'w state \<Rightarrow> 'w state \<Rightarrow> bool" where
  "quiet s s' = (\<exists>evs. s' = \<lparr>trace = trace s @ evs, world = world s\<rparr> \<and> backends evs = [])"

subsection \<open>A concrete environment\<close>

text \<open>
  Collaborators at which the theorems are instantiated: a world that counts the calls made,
  an explorer that knows the chain height, rejects one address and accepts every posted
  transaction, a Sandshrew client that answers and one that is down, a PSBT library that
  accepts one payload of each encoding. Its numbers are integers; no statement below
  depends on its arithmetic.
\<close>

definition demo_fetch :: "nat fetch" where
  "demo_fetch req w =
     (if req_method req = ''POST'' then
        Inr \<lparr>resp_ok = True, resp_statusText = ''OK'', resp_text = Inr ''ab12'',
             resp_json = Inl (Error ''Unexpected token'')\<rparr>
      else if req_url req = ''https://mempool.space/signet/api/blocks/tip/height'' then
        Inr \<lparr>resp_ok = True, resp_statusText = ''OK'', resp_text = Inr ''850000'',
             resp_json = Inr (JNum 850000)\<rparr>
      else if req_url req = ''https://mempool.space/signet/api/address/tb1q/utxo'' then
        Inr \<lparr>resp_ok = False, resp_statusText = ''Bad Request'', resp_text = Inr ''Invalid address'',
             resp_json = Inl (Error ''Unexpected token'')\<rparr>
      else Inl (Error ''getaddrinfo ENOTFOUND''),
      Suc w)"

definition up_sandshrew :: "(nat, int) SandshrewBitcoinClient" where
  "up_sandshrew =
     \<lparr>ss_multiCall = (\<lambda>calls w. (Inr (map (\<lambda>c. \<lparr>result = JNum 1\<rparr>) calls), Suc w)),
      testMemPoolAccept = (\<lambda>hs w. (Inr [\<lparr>allowed = True, reject_reason = None\<rparr>], Suc w)),
      sendRawTransaction = (\<lambda>h w. (Inr (), Suc w)),
      getMemPoolEntry =
        (\<lambda>t w. (Inr \<lparr>me_vsize = 110, me_weight = 437, me_fees_base = 0\<rparr>, Suc w))\<rparr>"

definition down_sandshrew :: "(nat, int) SandshrewBitcoinClient" where
  "down_sandshrew =
     \<lparr>ss_multiCall = (\<lambda>calls w. (Inl (Error ''connect ECONNREFUSED''), Suc w)),
      testMemPoolAccept = (\<lambda>hs w. (Inl (Error ''connect ECONNREFUSED''), Suc w)),
      sendRawTransaction = (\<lambda>h w. (Inl (Error ''connect ECONNREFUSED''), Suc w)),
      getMemPoolEntry = (\<lambda>t w. (Inl (Error ''connect ECONNREFUSED''), Suc w))\<rparr>"

definition demo_ext :: "(nat, int, string, unit) externals" where
  "demo_ext =
     \<lparr>ext_fetch = demo_fetch,
      new_SandshrewBitcoinClient = (\<lambda>u. up_sandshrew),
      Psbt_fromHex =
        (\<lambda>h k. if h = ''70736274ff'' then Inr h
               else Inl (Error ''Format Error: Invalid Magic Number'')),
      Psbt_fromBase64 =
        (\<lambda>b k. if b = ''cHNidP8='' then Inr b
               else Inl (Error ''Format Error: Invalid Magic Number'')),
      extractTransaction =
        (\<lambda>ps. Inr \<lparr>tx_getId = ''ab12'', tx_toHex = ''0200'', tx_virtualSize = 110,
                    tx_weight = 437\<rparr>),
      waitForTransaction = (\<lambda>t c w. (Inr (), Suc w)),
      num = id,
      num_times = (*),
      num_divide = (div),
      num_power = (\<lambda>x y. x ^ nat y),
      num_toFixed = (\<lambda>x d. show_int x)\<rparr>"

definition demo_args :: "networkType \<Rightarrow> bool option \<Rightarrow> unit ProviderConstructorArgs" where
  "demo_args t fallback =
     \<lparr>arg_url = ''https://signet.sandshrew.io'', arg_projectId = ''lasereyes'', arg_network = (),
      arg_networkType = t, arg_version = None, arg_fallbackToBlockstream = fallback\<rparr>"

definition demo_calls :: "call list" where
  "demo_calls =
     [(''esplora_address::utxo'', [JStr ''tb1q'']), (''no_such_method'', []),
      (''btc_getblockcount'', []), (''ord_output'', [])]"

definition s0 :: "nat state" where
  "s0 = \<lparr>trace = [], world = 0\<rparr>"

definition signet_client :: BlockstreamEsploraClient where
  "signet_client = \<lparr>baseUrl = ''https://mempool.space/signet/api''\<rparr>"

definition signet_provider :: "(nat, int, unit) Provider" where
  "signet_provider = Provider_new demo_ext (demo_args Signet (Some False))"

definition regtest_provider :: "(nat, int, unit) Provider" where
  "regtest_provider = Provider_new demo_ext (demo_args Regtest (Some True))"

definition fallback_provider :: "(nat, int, unit) Provider" where
  "fallback_provider = Provider_new demo_ext (demo_args Testnet None)\<lparr>sandshrew := Some down_sandshrew\<rparr>"

section \<open>Lemmas\<close>

subsection \<open>The loop of multiCall\<close>

lemma loop_acc:
  "multiCall_loop fetch this cs acc w =
     (acc @ fst (multiCall_loop fetch this cs [] w), snd (multiCall_loop fetch this cs [] w))"
proof (induction cs arbitrary: acc w)
  case Nil
  show ?case by simp
next
  case (Cons c cs)
  obtain r w' where d: "dispatch fetch this c w = (r, w')" by (cases "dispatch fetch this c w")
  show ?case
  proof (cases r)
    case (Inl e)
    show ?thesis
      using Cons.IH [of "acc @ [\<lparr>result = JNull\<rparr>]" w'] Cons.IH [of "[\<lparr>result = JNull\<rparr>]" w']
      by (simp add: d Inl)
  next
    case (Inr v)
    show ?thesis
      using Cons.IH [of "acc @ [\<lparr>result = v\<rparr>]" w'] Cons.IH [of "[\<lparr>result = v\<rparr>]" w']
      by (simp add: d Inr)
  qed
qed

lemma loop_Cons:
  "multiCall_loop fetch this (c # cs) [] w =
     (fst (step_envelope fetch this c w) #
        fst (multiCall_loop fetch this cs [] (snd (step_envelope fetch this c w))),
      snd (multiCall_loop fetch this cs [] (snd (step_envelope fetch this c w))))"
proof -
  obtain r w' where d: "dispatch fetch this c w = (r, w')" by (cases "dispatch fetch this c w")
  show ?thesis
  proof (cases r)
    case (Inl e)
    show ?thesis
      using loop_acc [of fetch this cs "[\<lparr>result = JNull\<rparr>]" w']
      by (simp add: d Inl step_envelope_def)
  next
    case (Inr v)
    show ?thesis
      using loop_acc [of fetch this cs "[\<lparr>result = v\<rparr>]" w']
      by (simp add: d Inr step_envelope_def)
  qed
qed

lemma loop_length: "length (fst (multiCall_loop fetch this cs [] w)) = length cs"
proof (induction cs arbitrary: w)
  case Nil
  show ?case by simp
next
  case (Cons c cs)
  show ?case by (simp only: loop_Cons fst_conv list.size Cons.IH)
qed

lemma loop_nth:
  "i < length cs \<Longrightarrow>
     fst (multiCall_loop fetch this cs [] w) ! i =
       fst (step_envelope fetch this (cs ! i) (snd (multiCall_loop fetch this (take i cs) [] w)))"
proof (induction cs arbitrary: i w)
  case Nil
  then show ?case by simp
next
  case (Cons c cs)
  show ?case
  proof (cases i)
    case 0
    show ?thesis by (simp add: loop_Cons 0 del: multiCall_loop.simps(2))
  next
    case (Suc j)
    with Cons.prems have j: "j < length cs" by simp
    show ?thesis
      using Cons.IH [OF j, of "snd (step_envelope fetch this c w)"]
      by (simp only: loop_Cons Suc fst_conv snd_conv nth_Cons_Suc take_Suc_Cons)
  qed
qed

lemma step_envelope_result:
  "result (fst (step_envelope fetch this c w)) =
     (case fst (dispatch fetch this c w) of Inl e \<Rightarrow> JNull | Inr r \<Rightarrow> r)"
  by (cases "dispatch fetch this c w") (auto simp: step_envelope_def split: sum.splits)

lemma step_envelope_world:
  "snd (step_envelope fetch this c w) = snd (dispatch fetch this c w)"
  by (cases "dispatch fetch this c w") (auto simp: step_envelope_def split: sum.splits)

lemma loop_world:
  "snd (multiCall_loop fetch this cs [] w) = foldl (\<lambda>w c. snd (dispatch fetch this c w)) w cs"
proof (induction cs arbitrary: w)
  case Nil
  show ?case by simp
next
  case (Cons c cs)
  show ?case by (simp only: loop_Cons snd_conv Cons.IH step_envelope_world foldl_Cons)
qed

lemma dispatch_unknown:
  "fst c \<notin> set known_methods \<Longrightarrow> dispatch fetch this c w = (Inr JNull, w)"
  by (cases c) (simp add: dispatch_def known_methods_def)

subsection \<open>Traces\<close>

lemma backends_Nil [simp]: "backends [] = []"
  by (simp add: backends_def)

lemma backends_append [simp]: "backends (xs @ ys) = backends xs @ backends ys"
  by (simp add: backends_def List.map_filter_def)

lemma backends_Cons [simp]:
  "backends (e # es) = (case backend_of e of None \<Rightarrow> backends es | Some b \<Rightarrow> b # backends es)"
  by (simp add: backends_def split: option.splits)

lemma remote_eq:
  "remote ev f s = (fst (f (world s)), \<lparr>trace = trace s @ [ev], world = snd (f (world s))\<rparr>)"
  by (simp add: remote_def split: prod.splits)

lemma grows_refl [simp]: "grows s s"
  by (simp add: grows_def)

lemma grows_trans: "grows s s1 \<Longrightarrow> grows s1 s2 \<Longrightarrow> grows s s2"
  by (auto simp: grows_def)

lemma grows_remote [simp]: "grows s (snd (remote ev f s))"
  by (simp add: grows_def remote_eq)

lemma grows_local [simp]: "grows s (snd (local ev r s))"
  by (simp add: grows_def local_def)

lemma grows_from:
  "grows s1 s' \<Longrightarrow> trace s1 = trace s @ [ev] \<Longrightarrow> \<exists>evs. trace s' = trace s @ ev # evs"
  by (auto simp: grows_def)

lemma quiet_refl [simp]: "quiet s s"
  unfolding quiet_def by (rule exI [of _ "[]"]) (cases s, simp)

lemma quiet_trans: "quiet s s1 \<Longrightarrow> quiet s1 s2 \<Longrightarrow> quiet s s2"
  by (auto simp: quiet_def)

lemma quiet_local [simp]: "backend_of ev = None \<Longrightarrow> quiet s (snd (local ev r s))"
  by (simp add: quiet_def local_def)

subsection \<open>Sequencing\<close>

lemma await_Inr:
  "await m f s = (Inr b, s') \<Longrightarrow> \<exists>a s1. m s = (Inr a, s1) \<and> f a s1 = (Inr b, s')"
  by (auto simp: await_def split: prod.splits sum.splits)

lemma grows_await:
  assumes "\<And>s. grows s (snd (m s))" and "\<And>a s. grows s (snd (f a s))"
  shows "grows s (snd (await m f s))"
proof -
  obtain r s1 where m: "m s = (r, s1)" by (cases "m s")
  from assms(1) [of s] m have g1: "grows s s1" by simp
  show ?thesis
  proof (cases r)
    case (Inl e)
    with m g1 show ?thesis by (simp add: await_def)
  next
    case (Inr a)
    with m have "await m f s = f a s1" by (simp add: await_def)
    with assms(2) [of s1 a] g1 show ?thesis by (auto intro: grows_trans)
  qed
qed

lemma quiet_await:
  assumes "\<And>s. quiet s (snd (m s))" and "\<And>a s. quiet s (snd (f a s))"
  shows "quiet s (snd (await m f s))"
proof -
  obtain r s1 where m: "m s = (r, s1)" by (cases "m s")
  from assms(1) [of s] m have g1: "quiet s s1" by simp
  show ?thesis
  proof (cases r)
    case (Inl e)
    with m g1 show ?thesis by (simp add: await_def)
  next
    case (Inr a)
    with m have "await m f s = f a s1" by (simp add: await_def)
    with assms(2) [of s1 a] g1 show ?thesis by (auto intro: quiet_trans)
  qed
qed

lemma isl_await:
  assumes "\<And>a s. isl (fst (f a s))"
  shows "isl (fst (await m f s))"
proof -
  obtain r s1 where m: "m s = (r, s1)" by (cases "m s")
  show ?thesis
    using assms by (cases r) (simp_all add: await_def m)
qed

subsection \<open>Provider\<close>

lemma blockstream_multiCall_eq:
  "blockstream_multiCall ext client calls s =
     (Inr (fst (BlockstreamEsploraClient_multiCall (ext_fetch ext) client calls (world s))),
      \<lparr>trace = trace s @ [BlockstreamMultiCall calls],
       world = snd (BlockstreamEsploraClient_multiCall (ext_fetch ext) client calls (world s))\<rparr>)"
  by (simp add: blockstream_multiCall_def remote_eq split: prod.splits)

lemma sandshrew_multiCall_trace:
  "\<exists>evs. trace (snd (sandshrew_multiCall p calls s)) = trace s @ evs \<and>
     (evs = [] \<or> evs = [SandshrewMultiCall calls])"
  by (simp add: sandshrew_multiCall_def remote_eq split: option.splits)

lemma Provider_new_sandshrew:
  "sandshrew (Provider_new ext args) =
     Some (new_SandshrewBitcoinClient ext (url (Provider_new ext args)))"
  by (simp add: Provider_new_def Let_def)

lemma Provider_new_blockstreamEsplora:
  "blockstreamEsplora (Provider_new ext args) =
     (case BlockstreamEsploraClient_new (arg_networkType args) of
        Inr c \<Rightarrow> Some c
      | Inl e \<Rightarrow> None)"
  by (cases "arg_networkType args")
    (simp_all add: Provider_new_def Let_def BlockstreamEsploraClient_new_def)

lemma multiCall_without_blockstream:
  "blockstreamEsplora p = None \<Longrightarrow> Provider_multiCall ext p calls s = sandshrew_multiCall p calls s"
proof -
  assume n: "blockstreamEsplora p = None"
  obtain r s' where r: "sandshrew_multiCall p calls s = (r, s')"
    by (cases "sandshrew_multiCall p calls s")
  show ?thesis
    by (cases r) (simp_all add: Provider_multiCall_def blockstream_first_def n r)
qed

lemma grows_decode_psbt: "grows s (snd (decode_psbt ext p psbtHex psbtBase64 s))"
  unfolding decode_psbt_def
  by (rule grows_await) (auto split: option.splits)

lemma grows_extract_tx: "grows s (snd (extract_tx ext psbt s))"
  by (cases psbt) (simp_all add: extract_tx_def)

lemma grows_push_blockstream: "grows s (snd (push_blockstream ext p tx s))"
  unfolding push_blockstream_def
  by (cases "blockstreamEsplora p") (auto intro!: grows_await)

lemma grows_push_sandshrew: "grows s (snd (push_sandshrew ext p tx s))"
  unfolding push_sandshrew_def
  by (cases "sandshrew p") (auto intro!: grows_await split: list.splits simp: Let_def)

lemma grows_after_decode:
  "grows s (snd (await (extract_tx ext psbt)
      (\<lambda>extractedTx.
         if useBlockstreamFallback p \<or> sandshrew p = None then push_blockstream ext p extractedTx
         else push_sandshrew ext p extractedTx) s))"
  by (rule grows_await) (simp_all add: grows_extract_tx grows_push_blockstream grows_push_sandshrew)

lemma quiet_decode_psbt: "quiet s (snd (decode_psbt ext p psbtHex psbtBase64 s))"
  unfolding decode_psbt_def
  by (rule quiet_await) (auto split: option.splits)

lemma quiet_extract_tx: "quiet s (snd (extract_tx ext psbt s))"
  by (cases psbt) (simp_all add: extract_tx_def)

lemma push_blockstream_absent:
  "blockstreamEsplora p = None \<Longrightarrow> push_blockstream ext p tx s = (Inl (Error msg_no_service), s)"
  by (simp add: push_blockstream_def)

lemma decode_hex_only:
  assumes "truthy psbtHex" "\<not> truthy psbtBase64"
  shows "decode_psbt ext p psbtHex psbtBase64 s =
           local (PsbtFromHex (the psbtHex))
             (map_sum id Some (Psbt_fromHex ext (the psbtHex) (network p))) s"
  using assms
  by (cases psbtHex; cases psbtBase64; cases "Psbt_fromHex ext (the psbtHex) (network p)")
    (simp_all add: truthy_def decode_psbt_def await_def local_def)

lemma decode_base64_only:
  assumes "\<not> truthy psbtHex" "truthy psbtBase64"
  shows "decode_psbt ext p psbtHex psbtBase64 s =
           local (PsbtFromBase64 (the psbtBase64))
             (map_sum id Some (Psbt_fromBase64 ext (the psbtBase64) (network p))) s"
  using assms
  by (cases psbtHex; cases psbtBase64)
    (simp_all add: truthy_def decode_psbt_def await_def local_def)

lemma pushPsbt_proceeds:
  assumes d: "decode_psbt ext p psbtHex psbtBase64 s = local ev r s"
    and t: "truthy psbtHex \<noteq> truthy psbtBase64"
  shows "\<exists>evs. trace (snd (pushPsbt ext p psbtHex psbtBase64 s)) = trace s @ ev # evs"
proof -
  let ?s1 = "\<lparr>trace = trace s @ [ev], world = world s\<rparr>"
  let ?k = "\<lambda>psbt. await (extract_tx ext psbt)
      (\<lambda>extractedTx.
         if useBlockstreamFallback p \<or> sandshrew p = None then push_blockstream ext p extractedTx
         else push_sandshrew ext p extractedTx)"
  from t have p: "pushPsbt ext p psbtHex psbtBase64 s =
      await (decode_psbt ext p psbtHex psbtBase64) ?k s"
    by (auto simp: pushPsbt_def)
  have "grows ?s1 (snd (await (decode_psbt ext p psbtHex psbtBase64) ?k s))"
  proof (cases r)
    case (Inl e)
    then show ?thesis by (simp add: await_def d local_def)
  next
    case (Inr a)
    then have "await (decode_psbt ext p psbtHex psbtBase64) ?k s = ?k a ?s1"
      by (simp add: await_def d local_def)
    then show ?thesis by (simp add: grows_after_decode)
  qed
  then show ?thesis
    unfolding p by (rule grows_from) simp
qed

text \<open>
  On the primary path the numbers of the receipt come from the pool entry through the
  number operations of the runtime, which stay uninterpreted here: the fee is the base
  fee times \<open>10 ** 8\<close>, and the fee rate is \<^verbatim>\<open>toFixed(2)\<close> of the fee divided by a quarter
  of the weight.
\<close>

lemma primary_receipt:
  fixes ext :: "('w, 'n, 'p, 'k) externals"
  assumes u: "\<not> useBlockstreamFallback p" and c: "sandshrew p = Some client"
    and r: "pushPsbt ext p psbtHex psbtBase64 s = (Inr r, s')"
  shows "satsPerVByte r =
           num_toFixed ext (num_divide ext (fee r) (num_divide ext (weight r) (num ext 4))) 2 \<and>
         (\<exists>entry :: 'n mempool_entry. size' r = me_vsize entry \<and> weight r = me_weight entry \<and>
            fee r = num_times ext (me_fees_base entry) (num_power ext (num ext 10) (num ext 8)))"
proof -
  from r u c have p: "await (decode_psbt ext p psbtHex psbtBase64)
        (\<lambda>psbt. await (extract_tx ext psbt) (push_sandshrew ext p)) s = (Inr r, s')"
    by (auto simp: pushPsbt_def split: if_splits)
  from await_Inr [OF p] obtain psbt s1 where
    p2: "await (extract_tx ext psbt) (push_sandshrew ext p) s1 = (Inr r, s')" by blast
  from await_Inr [OF p2] obtain tx s2 where
    p3: "push_sandshrew ext p tx s2 = (Inr r, s')" by blast
  from p3 c show ?thesis
    by (auto simp: push_sandshrew_def await_def remote_eq Let_def
        split: prod.splits sum.splits list.splits if_splits)
qed

subsection \<open>The concrete environment, evaluated\<close>

lemma signet_provider_eq:
  "signet_provider =
     \<lparr>sandshrew = Some up_sandshrew, blockstreamEsplora = Some signet_client,
      network = (), networkType = Signet, url = ''https://signet.sandshrew.io/v1/lasereyes'',
      useBlockstreamFallback = True\<rparr>"
  by (simp add: signet_provider_def Provider_new_def demo_ext_def demo_args_def masterUrl_def
      BlockstreamEsploraClient_new_def Let_def signet_client_def)

lemma regtest_provider_eq:
  "regtest_provider =
     \<lparr>sandshrew = Some up_sandshrew, blockstreamEsplora = None,
      network = (), networkType = Regtest, url = ''https://signet.sandshrew.io/v1/lasereyes'',
      useBlockstreamFallback = True\<rparr>"
  by (simp add: regtest_provider_def Provider_new_def demo_ext_def demo_args_def masterUrl_def
      BlockstreamEsploraClient_new_def Let_def)

lemma fallback_provider_eq:
  "fallback_provider =
     \<lparr>sandshrew = Some down_sandshrew,
      blockstreamEsplora = Some \<lparr>baseUrl = ''https://blockstream.info/testnet/api''\<rparr>,
      network = (), networkType = Testnet, url = ''https://signet.sandshrew.io/v1/lasereyes'',
      useBlockstreamFallback = False\<rparr>"
  by (simp add: fallback_provider_def Provider_new_def demo_ext_def demo_args_def masterUrl_def
      BlockstreamEsploraClient_new_def Let_def)

lemma demo_ext_fetch [simp]: "ext_fetch demo_ext = demo_fetch"
  by (simp add: demo_ext_def)

lemma demo_multiCall:
  "BlockstreamEsploraClient_multiCall demo_fetch signet_client demo_calls 0 =
     ([\<lparr>result = JNull\<rparr>, \<lparr>result = JNull\<rparr>, \<lparr>result = JNum 850000\<rparr>, \<lparr>result = JNull\<rparr>], 2)"
  by (simp add: BlockstreamEsploraClient_multiCall_def demo_calls_def dispatch_def demo_fetch_def
      getAddressUtxos_def getBlockHeight_def get_json_def GET_def signet_client_def)

lemma demo_multiCall_testnet:
  "BlockstreamEsploraClient_multiCall demo_fetch
      \<lparr>baseUrl = ''https://blockstream.info/testnet/api''\<rparr> demo_calls (Suc 0) =
     ([\<lparr>result = JNull\<rparr>, \<lparr>result = JNull\<rparr>, \<lparr>result = JNull\<rparr>, \<lparr>result = JNull\<rparr>], 3)"
  by (simp add: BlockstreamEsploraClient_multiCall_def demo_calls_def dispatch_def demo_fetch_def
      getAddressUtxos_def getBlockHeight_def get_json_def GET_def)

lemma demo_push_secondary:
  "pushPsbt demo_ext signet_provider (Some ''70736274ff'') None s0 =
     (Inr \<lparr>txId = ''ab12'', rawTx = ''0200'', size' = 110, weight = 437, fee = 0,
           satsPerVByte = ''0''\<rparr>,
      \<lparr>trace = [PsbtFromHex ''70736274ff'', ExtractTransaction, BlockstreamPushTx ''0200''],
       world = 1\<rparr>)"
  by (simp add: pushPsbt_def truthy_def decode_psbt_def extract_tx_def push_blockstream_def
      await_def local_def remote_def pushTx_def signet_provider_eq demo_ext_def demo_fetch_def
      s0_def signet_client_def)

section \<open>The claims\<close>

text \<open>
  C1. For a batch of \<open>N\<close> calls, \<^verbatim>\<open>BlockstreamEsploraClient.multiCall\<close> returns \<open>N\<close> envelopes in
  the order of the calls and never raises (the function is total: its result is a list, not
  an error). The envelope at position \<open>i\<close> holds what the \<^verbatim>\<open>switch\<close> produces for call \<open>i\<close> in
  the world left by the calls before it, and \<^verbatim>\<open>null\<close> when that call throws; so a failing
  call changes its own position only and the calls after it are still executed: the world
  after the batch is the world after every call of the batch, in order. A method name
  outside the five known ones yields \<^verbatim>\<open>null\<close> at its position.
\<close>

theorem multiCall_envelopes:
  "length (fst (BlockstreamEsploraClient_multiCall fetch this calls w)) = length calls \<and>
   (\<forall>i < length calls.
      result (fst (BlockstreamEsploraClient_multiCall fetch this calls w) ! i) =
        (case fst (dispatch fetch this (calls ! i)
                     (snd (BlockstreamEsploraClient_multiCall fetch this (take i calls) w))) of
           Inl e \<Rightarrow> JNull
         | Inr r \<Rightarrow> r)) \<and>
   (\<forall>i < length calls. fst (calls ! i) \<notin> set known_methods \<longrightarrow>
      result (fst (BlockstreamEsploraClient_multiCall fetch this calls w) ! i) = JNull) \<and>
   snd (BlockstreamEsploraClient_multiCall fetch this calls w) =
     foldl (\<lambda>w c. snd (dispatch fetch this c w)) w calls"
proof (intro conjI allI impI)
  show "length (fst (BlockstreamEsploraClient_multiCall fetch this calls w)) = length calls"
    by (simp add: BlockstreamEsploraClient_multiCall_def loop_length)
next
  fix i assume i: "i < length calls"
  show "result (fst (BlockstreamEsploraClient_multiCall fetch this calls w) ! i) =
        (case fst (dispatch fetch this (calls ! i)
                     (snd (BlockstreamEsploraClient_multiCall fetch this (take i calls) w))) of
           Inl e \<Rightarrow> JNull
         | Inr r \<Rightarrow> r)"
    by (simp add: BlockstreamEsploraClient_multiCall_def loop_nth [OF i] step_envelope_result)
next
  fix i assume i: "i < length calls" and u: "fst (calls ! i) \<notin> set known_methods"
  show "result (fst (BlockstreamEsploraClient_multiCall fetch this calls w) ! i) = JNull"
    by (simp add: BlockstreamEsploraClient_multiCall_def loop_nth [OF i] step_envelope_result
        dispatch_unknown [OF u])
next
  show "snd (BlockstreamEsploraClient_multiCall fetch this calls w) =
      foldl (\<lambda>w c. snd (dispatch fetch this c w)) w calls"
    by (simp add: BlockstreamEsploraClient_multiCall_def loop_world)
qed

text \<open>
  At a batch of four calls on signet: a rejected address, an unknown method, the chain
  height and an \<^verbatim>\<open>ord_output\<close> without its parameter.
\<close>

theorem multiCall_envelopes_witness:
  "length demo_calls = 4 \<and>
   length (fst (BlockstreamEsploraClient_multiCall demo_fetch signet_client demo_calls 0)) = 4 \<and>
   fst (demo_calls ! 1) \<notin> set known_methods \<and>
   map result (fst (BlockstreamEsploraClient_multiCall demo_fetch signet_client demo_calls 0)) =
     [JNull, JNull, JNum 850000, JNull]"
proof -
  have l: "length demo_calls = 4" by (simp add: demo_calls_def)
  have i: "1 < length demo_calls" by (simp add: demo_calls_def)
  have u: "fst (demo_calls ! 1) \<notin> set known_methods"
    by (simp add: demo_calls_def known_methods_def)
  note t = multiCall_envelopes [of demo_fetch signet_client demo_calls 0]
  from t l have n:
    "length (fst (BlockstreamEsploraClient_multiCall demo_fetch signet_client demo_calls 0)) = 4"
    by simp
  from t i u have
    "result (fst (BlockstreamEsploraClient_multiCall demo_fetch signet_client demo_calls 0) ! 1) = JNull"
    by blast
  with l u n show ?thesis by (simp add: demo_multiCall)
qed

text \<open>
  C2. One call of \<^verbatim>\<open>Provider.multiCall\<close> calls \<^verbatim>\<open>blockstreamEsplora.multiCall\<close> at most once:
  the backends contacted are, in order, none, the primary alone, the secondary alone, or the
  primary and then the secondary.
\<close>

theorem Provider_multiCall_secondary_once:
  "\<exists>evs. trace (snd (Provider_multiCall ext p calls s)) = trace s @ evs \<and>
     count_list (backends evs) SecondaryExplorer \<le> 1 \<and>
     backends evs \<in> {[], [Primary], [SecondaryExplorer], [Primary, SecondaryExplorer]}"
proof -
  obtain evs where e: "trace (snd (sandshrew_multiCall p calls s)) = trace s @ evs"
     and c: "evs = [] \<or> evs = [SandshrewMultiCall calls]"
    using sandshrew_multiCall_trace by blast
  from c have b: "backends evs = [] \<or> backends evs = [Primary]"
    by auto
  show ?thesis
  proof (cases "useBlockstreamFallback p \<and> blockstreamEsplora p \<noteq> None")
    case True
    then show ?thesis
      by (auto simp: Provider_multiCall_def blockstream_first_def blockstream_multiCall_eq)
  next
    case False
    then have f: "blockstream_first ext p calls s = (None, s)"
      by (auto simp: blockstream_first_def split: option.splits)
    obtain r s2 where r: "sandshrew_multiCall p calls s = (r, s2)"
      by (cases "sandshrew_multiCall p calls s")
    with e have e2: "trace s2 = trace s @ evs" by simp
    show ?thesis
      using b e2 False
      by (cases r; cases "blockstreamEsplora p")
        (auto simp: Provider_multiCall_def f r blockstream_multiCall_eq)
  qed
qed

text \<open>On testnet with the primary down: the primary is tried, then the secondary, once.\<close>

theorem Provider_multiCall_secondary_once_witness:
  "count_list (backends (trace (snd (Provider_multiCall demo_ext fallback_provider demo_calls s0))))
     SecondaryExplorer \<le> 1 \<and>
   trace (snd (Provider_multiCall demo_ext fallback_provider demo_calls s0)) =
     [SandshrewMultiCall demo_calls, BlockstreamMultiCall demo_calls]"
proof -
  from Provider_multiCall_secondary_once [of demo_ext fallback_provider demo_calls s0]
  have "count_list (backends (trace (snd (Provider_multiCall demo_ext fallback_provider demo_calls s0))))
     SecondaryExplorer \<le> 1"
    by (auto simp: s0_def)
  moreover have "trace (snd (Provider_multiCall demo_ext fallback_provider demo_calls s0)) =
     [SandshrewMultiCall demo_calls, BlockstreamMultiCall demo_calls]"
    by (simp add: Provider_multiCall_def blockstream_first_def blockstream_multiCall_def
        sandshrew_multiCall_def remote_def fallback_provider_eq down_sandshrew_def s0_def
        demo_multiCall_testnet)
  ultimately show ?thesis by simp
qed

text \<open>
  C3. A provider constructed for signet has \<^verbatim>\<open>useBlockstreamFallback\<close> true whatever the
  flag \<^verbatim>\<open>fallbackToBlockstream\<close>, holds the signet explorer client, and every
  \<^verbatim>\<open>Provider.multiCall\<close> on it calls the secondary backend first.
\<close>

theorem signet_secondary_first:
  "arg_networkType args = Signet \<Longrightarrow>
     useBlockstreamFallback (Provider_new ext args) \<and>
     blockstreamEsplora (Provider_new ext args) =
       Some \<lparr>baseUrl = ''https://mempool.space/signet/api''\<rparr> \<and>
     (\<exists>evs. trace (snd (Provider_multiCall ext (Provider_new ext args) calls s)) =
        trace s @ BlockstreamMultiCall calls # evs)"
  by (simp add: Provider_new_def Let_def BlockstreamEsploraClient_new_def Provider_multiCall_def
      blockstream_first_def blockstream_multiCall_eq)

text \<open>On signet with the flag explicitly false.\<close>

theorem signet_secondary_first_witness:
  "arg_networkType (demo_args Signet (Some False)) = Signet \<and>
   useBlockstreamFallback signet_provider \<and>
   Provider_multiCall demo_ext signet_provider demo_calls s0 =
     (Inr [\<lparr>result = JNull\<rparr>, \<lparr>result = JNull\<rparr>, \<lparr>result = JNum 850000\<rparr>, \<lparr>result = JNull\<rparr>],
      \<lparr>trace = [BlockstreamMultiCall demo_calls], world = 2\<rparr>)"
proof -
  have h: "arg_networkType (demo_args Signet (Some False)) = Signet"
    by (simp add: demo_args_def)
  from signet_secondary_first [OF h, of demo_ext demo_calls s0]
  have u: "useBlockstreamFallback signet_provider"
    by (simp add: signet_provider_def)
  have "Provider_multiCall demo_ext signet_provider demo_calls s0 =
     (Inr [\<lparr>result = JNull\<rparr>, \<lparr>result = JNull\<rparr>, \<lparr>result = JNum 850000\<rparr>, \<lparr>result = JNull\<rparr>],
      \<lparr>trace = [BlockstreamMultiCall demo_calls], world = 2\<rparr>)"
    by (simp add: Provider_multiCall_def blockstream_first_def blockstream_multiCall_def
        remote_def signet_provider_eq s0_def demo_multiCall)
  with h u show ?thesis by simp
qed

text \<open>
  C4. Without a secondary client, a failure of the primary's \<^verbatim>\<open>multiCall\<close> is the failure of
  \<^verbatim>\<open>Provider.multiCall\<close>: the same error value, in the state the primary left.
\<close>

theorem primary_failure_propagates:
  "blockstreamEsplora p = None \<Longrightarrow> sandshrew_multiCall p calls s = (Inl e, s') \<Longrightarrow>
     Provider_multiCall ext p calls s = (Inl e, s')"
  by (simp add: Provider_multiCall_def blockstream_first_def)

text \<open>On regtest with the primary down.\<close>

theorem primary_failure_propagates_witness:
  "blockstreamEsplora (regtest_provider\<lparr>sandshrew := Some down_sandshrew\<rparr>) = None \<and>
   sandshrew_multiCall (regtest_provider\<lparr>sandshrew := Some down_sandshrew\<rparr>) demo_calls s0 =
     (Inl (Error ''connect ECONNREFUSED''), \<lparr>trace = [SandshrewMultiCall demo_calls], world = 1\<rparr>) \<and>
   Provider_multiCall demo_ext (regtest_provider\<lparr>sandshrew := Some down_sandshrew\<rparr>) demo_calls s0 =
     (Inl (Error ''connect ECONNREFUSED''), \<lparr>trace = [SandshrewMultiCall demo_calls], world = 1\<rparr>)"
proof -
  have n: "blockstreamEsplora (regtest_provider\<lparr>sandshrew := Some down_sandshrew\<rparr>) = None"
    by (simp add: regtest_provider_eq)
  have f: "sandshrew_multiCall (regtest_provider\<lparr>sandshrew := Some down_sandshrew\<rparr>) demo_calls s0 =
     (Inl (Error ''connect ECONNREFUSED''), \<lparr>trace = [SandshrewMultiCall demo_calls], world = 1\<rparr>)"
    by (simp add: sandshrew_multiCall_def regtest_provider_eq down_sandshrew_def remote_def s0_def)
  from primary_failure_propagates [OF n f, of demo_ext] n f show ?thesis by simp
qed

text \<open>
  C5, as the spec states it, fails: a broadcast that succeeds through the secondary explorer
  returns the fee rate \<^verbatim>\<open>'0'\<close>, the literal of the source, not \<^verbatim>\<open>'0.00'\<close>.
\<close>

theorem secondary_fee_rate_counterexample:
  "map_sum id satsPerVByte
     (fst (pushPsbt demo_ext signet_provider (Some ''70736274ff'') None s0)) = Inr ''0'' \<and>
   map_sum id satsPerVByte
     (fst (pushPsbt demo_ext signet_provider (Some ''70736274ff'') None s0)) \<noteq> Inr ''0.00'' \<and>
   backends (trace (snd (pushPsbt demo_ext signet_provider (Some ''70736274ff'') None s0))) =
     [SecondaryExplorer]"
  by (simp add: demo_push_secondary)

text \<open>
  C5, amended. Every broadcast that succeeds on the branch
  \<^verbatim>\<open>if (this.useBlockstreamFallback || !this.sandshrew)\<close> returns a receipt with the fee \<open>0\<close>
  and the fee rate \<^verbatim>\<open>'0'\<close>, and the last call made is the secondary's \<^verbatim>\<open>pushTx\<close> of the raw
  transaction of the receipt.
\<close>

theorem secondary_receipt:
  assumes c: "useBlockstreamFallback p \<or> sandshrew p = None"
    and r: "pushPsbt ext p psbtHex psbtBase64 s = (Inr r, s')"
  shows "fee r = num ext 0 \<and> satsPerVByte r = ''0'' \<and>
         (\<exists>evs. trace s' = trace s @ evs @ [BlockstreamPushTx (rawTx r)])"
proof -
  from r have p: "await (decode_psbt ext p psbtHex psbtBase64)
        (\<lambda>psbt. await (extract_tx ext psbt) (push_blockstream ext p)) s = (Inr r, s')"
    using c by (auto simp: pushPsbt_def split: if_splits)
  from await_Inr [OF p] obtain psbt s1 where
    d: "decode_psbt ext p psbtHex psbtBase64 s = (Inr psbt, s1)" and
    p2: "await (extract_tx ext psbt) (push_blockstream ext p) s1 = (Inr r, s')" by blast
  from await_Inr [OF p2] obtain tx s2 where
    e: "extract_tx ext psbt s1 = (Inr tx, s2)" and
    p3: "push_blockstream ext p tx s2 = (Inr r, s')" by blast
  from grows_decode_psbt [of s ext p psbtHex psbtBase64] d have g1: "grows s s1" by simp
  from grows_extract_tx [of s1 ext psbt] e have g2: "grows s1 s2" by simp
  from g1 g2 obtain evs where evs: "trace s2 = trace s @ evs" by (auto simp: grows_def)
  from p3 obtain client where cl: "blockstreamEsplora p = Some client"
    by (cases "blockstreamEsplora p") (auto simp: push_blockstream_def)
  from p3 cl have "r = \<lparr>txId = tx_getId tx, rawTx = tx_toHex tx, size' = tx_virtualSize tx,
        weight = tx_weight tx, fee = num ext 0, satsPerVByte = ''0''\<rparr> \<and>
      trace s' = trace s2 @ [BlockstreamPushTx (tx_toHex tx)]"
    by (auto simp: push_blockstream_def await_def remote_eq split: sum.splits)
  with evs show ?thesis by auto
qed

text \<open>On signet, with a hex payload.\<close>

theorem secondary_receipt_witness:
  "(useBlockstreamFallback signet_provider \<or> sandshrew signet_provider = None) \<and>
   pushPsbt demo_ext signet_provider (Some ''70736274ff'') None s0 =
     (Inr \<lparr>txId = ''ab12'', rawTx = ''0200'', size' = 110, weight = 437, fee = 0,
           satsPerVByte = ''0''\<rparr>,
      \<lparr>trace = [PsbtFromHex ''70736274ff'', ExtractTransaction, BlockstreamPushTx ''0200''],
       world = 1\<rparr>) \<and>
   fee \<lparr>txId = ''ab12'', rawTx = ''0200'', size' = 110, weight = 437, fee = 0 :: int,
        satsPerVByte = ''0''\<rparr> = num demo_ext 0"
proof -
  have c: "useBlockstreamFallback signet_provider \<or> sandshrew signet_provider = None"
    by (simp add: signet_provider_eq)
  from secondary_receipt [OF c demo_push_secondary] c show ?thesis
    by (simp add: demo_push_secondary)
qed

text \<open>
  C7. \<^verbatim>\<open>pushPsbt\<close> tests its two payloads for truth: a payload is supplied when it is a
  string that is not empty (\<open>truthy\<close>). With neither supplied it fails with the error
  \<open>msg_supply\<close>, with both with the error \<open>msg_select\<close>, in both cases in the state it
  started in: nothing was decoded and no backend was contacted. With exactly one supplied it
  goes on, and the first thing it does is to decode that payload. So it fails with one of the
  two validation errors before anything else happens exactly when both or neither are
  supplied.
\<close>

theorem pushPsbt_validation:
  "(\<not> truthy psbtHex \<and> \<not> truthy psbtBase64 \<longrightarrow>
      pushPsbt ext p psbtHex psbtBase64 s = (Inl (Error msg_supply), s)) \<and>
   (truthy psbtHex \<and> truthy psbtBase64 \<longrightarrow>
      pushPsbt ext p psbtHex psbtBase64 s = (Inl (Error msg_select), s)) \<and>
   (truthy psbtHex \<and> \<not> truthy psbtBase64 \<longrightarrow>
      (\<exists>evs. trace (snd (pushPsbt ext p psbtHex psbtBase64 s)) =
         trace s @ PsbtFromHex (the psbtHex) # evs)) \<and>
   (\<not> truthy psbtHex \<and> truthy psbtBase64 \<longrightarrow>
      (\<exists>evs. trace (snd (pushPsbt ext p psbtHex psbtBase64 s)) =
         trace s @ PsbtFromBase64 (the psbtBase64) # evs)) \<and>
   ((\<exists>m. pushPsbt ext p psbtHex psbtBase64 s = (Inl (Error m), s) \<and>
          m \<in> {msg_supply, msg_select}) =
      (truthy psbtHex = truthy psbtBase64))"
proof -
  have neither: "\<not> truthy psbtHex \<and> \<not> truthy psbtBase64 \<longrightarrow>
      pushPsbt ext p psbtHex psbtBase64 s = (Inl (Error msg_supply), s)"
    by (simp add: pushPsbt_def)
  have both: "truthy psbtHex \<and> truthy psbtBase64 \<longrightarrow>
      pushPsbt ext p psbtHex psbtBase64 s = (Inl (Error msg_select), s)"
    by (simp add: pushPsbt_def)
  have hex: "truthy psbtHex \<and> \<not> truthy psbtBase64 \<longrightarrow>
      (\<exists>evs. trace (snd (pushPsbt ext p psbtHex psbtBase64 s)) =
         trace s @ PsbtFromHex (the psbtHex) # evs)"
    using pushPsbt_proceeds [OF decode_hex_only] by blast
  have b64: "\<not> truthy psbtHex \<and> truthy psbtBase64 \<longrightarrow>
      (\<exists>evs. trace (snd (pushPsbt ext p psbtHex psbtBase64 s)) =
         trace s @ PsbtFromBase64 (the psbtBase64) # evs)"
    using pushPsbt_proceeds [OF decode_base64_only] by blast
  have iff: "(\<exists>m. pushPsbt ext p psbtHex psbtBase64 s = (Inl (Error m), s) \<and>
          m \<in> {msg_supply, msg_select}) =
      (truthy psbtHex = truthy psbtBase64)"
  proof (cases "truthy psbtHex = truthy psbtBase64")
    case True
    with neither both show ?thesis by auto
  next
    case False
    with hex b64 have
      "\<exists>ev evs. trace (snd (pushPsbt ext p psbtHex psbtBase64 s)) = trace s @ ev # evs"
      by blast
    then have "snd (pushPsbt ext p psbtHex psbtBase64 s) \<noteq> s" by auto
    with False show ?thesis by auto
  qed
  from neither both hex b64 iff show ?thesis by blast
qed

text \<open>
  No payload, an empty hex payload, both payloads, hex alone and base64 alone, on the signet
  provider.
\<close>

theorem pushPsbt_validation_witness:
  "pushPsbt demo_ext signet_provider None None s0 = (Inl (Error msg_supply), s0) \<and>
   pushPsbt demo_ext signet_provider (Some []) None s0 = (Inl (Error msg_supply), s0) \<and>
   pushPsbt demo_ext signet_provider (Some ''70736274ff'') (Some ''cHNidP8='') s0 =
     (Inl (Error msg_select), s0) \<and>
   take 1 (trace (snd (pushPsbt demo_ext signet_provider (Some ''70736274ff'') None s0))) =
     [PsbtFromHex ''70736274ff''] \<and>
   take 1 (trace (snd (pushPsbt demo_ext signet_provider None (Some ''cHNidP8='') s0))) =
     [PsbtFromBase64 ''cHNidP8='']"
proof -
  have 1: "pushPsbt demo_ext signet_provider None None s0 = (Inl (Error msg_supply), s0)"
    using pushPsbt_validation [of None None demo_ext signet_provider s0]
    by (simp add: truthy_def)
  have 2: "pushPsbt demo_ext signet_provider (Some []) None s0 = (Inl (Error msg_supply), s0)"
    using pushPsbt_validation [of "Some []" None demo_ext signet_provider s0]
    by (simp add: truthy_def)
  have 3: "pushPsbt demo_ext signet_provider (Some ''70736274ff'') (Some ''cHNidP8='') s0 =
     (Inl (Error msg_select), s0)"
    using pushPsbt_validation
      [of "Some ''70736274ff''" "Some ''cHNidP8=''" demo_ext signet_provider s0]
    by (simp add: truthy_def)
  have 4: "take 1 (trace (snd (pushPsbt demo_ext signet_provider (Some ''70736274ff'') None s0))) =
     [PsbtFromHex ''70736274ff'']"
    using pushPsbt_validation [of "Some ''70736274ff''" None demo_ext signet_provider s0]
    by (auto simp: truthy_def s0_def)
  have 5: "take 1 (trace (snd (pushPsbt demo_ext signet_provider None (Some ''cHNidP8='') s0))) =
     [PsbtFromBase64 ''cHNidP8='']"
    using pushPsbt_validation [of None "Some ''cHNidP8=''" demo_ext signet_provider s0]
    by (auto simp: truthy_def s0_def)
  from 1 2 3 4 5 show ?thesis by blast
qed

text \<open>
  C8. When \<^verbatim>\<open>new BlockstreamEsploraClient(networkType)\<close> throws, the constructor of
  \<^verbatim>\<open>Provider\<close> still returns a provider (it is a total function, the throw being caught),
  the field \<^verbatim>\<open>blockstreamEsplora\<close> is undefined, and \<^verbatim>\<open>Provider.multiCall\<close> on that provider
  is exactly the call of the primary's \<^verbatim>\<open>multiCall\<close>.
\<close>

theorem secondary_absent_primary_only:
  "BlockstreamEsploraClient_new (arg_networkType args) = Inl e \<Longrightarrow>
     blockstreamEsplora (Provider_new ext args) = None \<and>
     Provider_multiCall ext (Provider_new ext args) calls s =
       remote (SandshrewMultiCall calls)
         (ss_multiCall (new_SandshrewBitcoinClient ext (url (Provider_new ext args))) calls) s"
proof -
  assume f: "BlockstreamEsploraClient_new (arg_networkType args) = Inl e"
  have n: "blockstreamEsplora (Provider_new ext args) = None"
    by (simp add: Provider_new_blockstreamEsplora f)
  show ?thesis
    by (simp add: n multiCall_without_blockstream [OF n] sandshrew_multiCall_def
        Provider_new_sandshrew)
qed

text \<open>On regtest with the fallback flag set, where the constructor of the client is reached.\<close>

theorem secondary_absent_primary_only_witness:
  "BlockstreamEsploraClient_new (arg_networkType (demo_args Regtest (Some True))) =
     Inl (Error ''Unsupported network type: regtest'') \<and>
   blockstreamEsplora regtest_provider = None \<and>
   Provider_multiCall demo_ext regtest_provider demo_calls s0 =
     (Inr [\<lparr>result = JNum 1\<rparr>, \<lparr>result = JNum 1\<rparr>, \<lparr>result = JNum 1\<rparr>, \<lparr>result = JNum 1\<rparr>],
      \<lparr>trace = [SandshrewMultiCall demo_calls], world = 1\<rparr>)"
proof -
  have f: "BlockstreamEsploraClient_new (arg_networkType (demo_args Regtest (Some True))) =
     Inl (Error ''Unsupported network type: regtest'')"
    by (simp add: BlockstreamEsploraClient_new_def demo_args_def networkType_name_def)
  note t = secondary_absent_primary_only
    [OF f, of demo_ext demo_calls s0, folded regtest_provider_def]
  have "new_SandshrewBitcoinClient demo_ext (url regtest_provider) = up_sandshrew"
    by (simp add: demo_ext_def)
  with t f show ?thesis
    by (simp add: remote_def up_sandshrew_def s0_def demo_calls_def)
qed

text \<open>
  C9. With \<^verbatim>\<open>useBlockstreamFallback\<close> true and no secondary client, \<^verbatim>\<open>pushPsbt\<close> always
  fails, contacts no backend (the primary included) and leaves the world as it was; when the
  payload passes validation, decodes and yields a transaction, the error is
  \<open>msg_no_service\<close>.
\<close>

theorem no_service_without_secondary:
  assumes u: "useBlockstreamFallback p" and n: "blockstreamEsplora p = None"
  shows "(\<exists>e evs. pushPsbt ext p psbtHex psbtBase64 s =
              (Inl e, \<lparr>trace = trace s @ evs, world = world s\<rparr>) \<and>
            backends evs = []) \<and>
         (\<forall>tx s1. truthy psbtHex \<noteq> truthy psbtBase64 \<longrightarrow>
            await (decode_psbt ext p psbtHex psbtBase64) (extract_tx ext) s = (Inr tx, s1) \<longrightarrow>
            pushPsbt ext p psbtHex psbtBase64 s = (Inl (Error msg_no_service), s1))"
proof (intro conjI allI impI)
  let ?rest = "await (decode_psbt ext p psbtHex psbtBase64)
        (\<lambda>psbt. await (extract_tx ext psbt) (push_blockstream ext p))"
  have q: "quiet s (snd (?rest s))"
    by (intro quiet_await quiet_decode_psbt quiet_extract_tx)
      (simp add: push_blockstream_absent [OF n])
  have i: "isl (fst (?rest s))"
    by (intro isl_await) (simp add: push_blockstream_absent [OF n])
  have "quiet s (snd (pushPsbt ext p psbtHex psbtBase64 s)) \<and>
        isl (fst (pushPsbt ext p psbtHex psbtBase64 s))"
    using q i u by (simp add: pushPsbt_def)
  then show "\<exists>e evs. pushPsbt ext p psbtHex psbtBase64 s =
        (Inl e, \<lparr>trace = trace s @ evs, world = world s\<rparr>) \<and> backends evs = []"
    by (cases "pushPsbt ext p psbtHex psbtBase64 s") (auto simp: quiet_def isl_def)
next
  fix tx s1
  assume t: "truthy psbtHex \<noteq> truthy psbtBase64"
    and d: "await (decode_psbt ext p psbtHex psbtBase64) (extract_tx ext) s = (Inr tx, s1)"
  from await_Inr [OF d] obtain psbt s0 where
    d1: "decode_psbt ext p psbtHex psbtBase64 s = (Inr psbt, s0)" and
    d2: "extract_tx ext psbt s0 = (Inr tx, s1)" by blast
  from t u show "pushPsbt ext p psbtHex psbtBase64 s = (Inl (Error msg_no_service), s1)"
    by (auto simp: pushPsbt_def await_def d1 d2 push_blockstream_absent [OF n])
qed

text \<open>On regtest with the fallback flag set, where the primary client exists.\<close>

theorem no_service_without_secondary_witness:
  "useBlockstreamFallback regtest_provider \<and> blockstreamEsplora regtest_provider = None \<and>
   sandshrew regtest_provider \<noteq> None \<and>
   pushPsbt demo_ext regtest_provider (Some ''70736274ff'') None s0 =
     (Inl (Error msg_no_service),
      \<lparr>trace = [PsbtFromHex ''70736274ff'', ExtractTransaction], world = 0\<rparr>)"
proof -
  have u: "useBlockstreamFallback regtest_provider"
    and n: "blockstreamEsplora regtest_provider = None"
    and ss: "sandshrew regtest_provider \<noteq> None"
    by (simp_all add: regtest_provider_eq)
  have t: "truthy (Some ''70736274ff'') \<noteq> truthy None" by (simp add: truthy_def)
  have d: "await (decode_psbt demo_ext regtest_provider (Some ''70736274ff'') None)
        (extract_tx demo_ext) s0 =
     (Inr \<lparr>tx_getId = ''ab12'', tx_toHex = ''0200'', tx_virtualSize = 110, tx_weight = 437\<rparr>,
      \<lparr>trace = [PsbtFromHex ''70736274ff'', ExtractTransaction], world = 0\<rparr>)"
    by (simp add: decode_psbt_def extract_tx_def await_def local_def demo_ext_def s0_def)
  from no_service_without_secondary [OF u n, of demo_ext "Some ''70736274ff''" None s0] t d
  have "pushPsbt demo_ext regtest_provider (Some ''70736274ff'') None s0 =
     (Inl (Error msg_no_service),
      \<lparr>trace = [PsbtFromHex ''70736274ff'', ExtractTransaction], world = 0\<rparr>)"
    by blast
  with u n ss show ?thesis by simp
qed

text \<open>
  C10. After construction the field \<^verbatim>\<open>blockstreamEsplora\<close> is what the constructor of the
  client returns for the network type, whatever the fallback flag: it is present exactly
  for mainnet, testnet and signet, and absent exactly for regtest.
\<close>

theorem secondary_present_iff:
  "blockstreamEsplora (Provider_new ext args) =
     (case BlockstreamEsploraClient_new (arg_networkType args) of
        Inr c \<Rightarrow> Some c
      | Inl e \<Rightarrow> None) \<and>
   (blockstreamEsplora (Provider_new ext args) \<noteq> None) =
     (arg_networkType args \<in> {Mainnet, Testnet, Signet}) \<and>
   (blockstreamEsplora (Provider_new ext args) = None) = (arg_networkType args = Regtest)"
  by (cases "arg_networkType args")
    (auto simp: Provider_new_def Let_def BlockstreamEsploraClient_new_def)

text \<open>Mainnet with the flag false, regtest with the flag true.\<close>

theorem secondary_present_iff_witness:
  "blockstreamEsplora (Provider_new demo_ext (demo_args Mainnet (Some False))) =
     Some \<lparr>baseUrl = ''https://blockstream.info/api''\<rparr> \<and>
   blockstreamEsplora (Provider_new demo_ext (demo_args Regtest (Some True))) = None"
  using secondary_present_iff [of demo_ext "demo_args Mainnet (Some False)"]
    secondary_present_iff [of demo_ext "demo_args Regtest (Some True)"]
  by (simp add: demo_args_def BlockstreamEsploraClient_new_def)

end
